theory Spec2Isabelle
  imports Complex_Main "HOL-Library.Sublist"
begin

section \<open>Heading estimation from RMC fixes (src/RMC/rmc_heading.py)\<close>

text \<open>
  Python floats are idealised as the reals: \<open>+\<close>, \<open>-\<close>, \<open>*\<close>, \<open>/\<close>, \<open>sin\<close>, \<open>cos\<close> are
  the exact operations, the literals \<open>0.2\<close> and \<open>0.514444\<close> are the decimal fractions
  they denote, and there is no rounding, no NaN, no infinity and no signed zero. The
  model on the reals agrees with the code except where a computed float and its exact
  value fall on different sides of a comparison; the gate of line 67 is stated a second
  time over an arbitrary arithmetic, which covers the doubles.
\<close>

subsection \<open>The functions of the math module that the code calls\<close>

definition radians :: "real \<Rightarrow> real" where
  "radians d = d * pi / 180"

definition degrees :: "real \<Rightarrow> real" where
  "degrees r = r * 180 / pi"

text \<open>
  \<open>math.atan2(a, b)\<close>: the angle of the point with abscissa \<open>b\<close> and ordinate \<open>a\<close>,
  in \<open>(-pi, pi]\<close>; \<open>atan2(0, 0)\<close> is \<open>0\<close>.
\<close>

definition atan2 :: "real \<Rightarrow> real \<Rightarrow> real" where
  "atan2 a b =
     (if 0 < b then arctan (a / b)
      else if b < 0 then (if 0 \<le> a then arctan (a / b) + pi else arctan (a / b) - pi)
      else if 0 < a then pi / 2
      else if a < 0 then - (pi / 2)
      else 0)"

text \<open>Python's \<open>%\<close> on floats: the result has the sign of the divisor.\<close>

definition pymod :: "real \<Rightarrow> real \<Rightarrow> real" where
  "pymod x y = x - y * of_int \<lfloor>x / y\<rfloor>"

subsection \<open>haversine_heading (lines 14 to 23)\<close>

definition haversine_heading :: "real \<Rightarrow> real \<Rightarrow> real \<Rightarrow> real \<Rightarrow> real" where
  "haversine_heading lat1 lon1 lat2 lon2 =
     (let lat1r = radians lat1; lon1r = radians lon1;
          lat2r = radians lat2; lon2r = radians lon2;
          delta_lon = lon2r - lon1r;
          x = sin delta_lon * cos lat2r;
          y = cos lat1r * sin lat2r - sin lat1r * cos lat2r * cos delta_lon;
          heading = degrees (atan2 x y)
      in pymod (heading + 360) 360)"

subsection \<open>The state of read_nmea_rmc (lines 27 to 34)\<close>

record state =
  prev_lat :: "real option"
  prev_lon :: "real option"
  last_valid_heading :: "real option"
  last_speed :: "real option"
  speed_buffer :: "real list"
  calculated_headings :: "real list"
  reported_headings :: "real list"
  timestamps :: "real list"
  previous_fixes :: "(real \<times> real) list"
  first_heading_calculated :: bool

definition init :: state where
  "init = \<lparr>prev_lat = None, prev_lon = None, last_valid_heading = None,
           last_speed = None, speed_buffer = [], calculated_headings = [],
           reported_headings = [], timestamps = [], previous_fixes = [],
           first_heading_calculated = False\<rparr>"

text \<open>\<open>deque(maxlen=n).append(x)\<close>: add on the right, drop from the left what exceeds \<open>n\<close>.\<close>

definition deque_append :: "nat \<Rightarrow> 'a list \<Rightarrow> 'a \<Rightarrow> 'a list" where
  "deque_append n xs x = (let ys = xs @ [x] in drop (length ys - n) ys)"

text \<open>The values of lines 45 to 49 for one valid message: a fix.\<close>

record rmc_fix =
  lat :: real
  lon :: real
  reported_heading :: "real option"
  speed_m_s :: real
  timestamp :: real

text \<open>Line 56.\<close>

definition speed_diff :: "real option \<Rightarrow> real \<Rightarrow> real" where
  "speed_diff prev current = (case prev of None \<Rightarrow> 0 | Some l \<Rightarrow> \<bar>current - l\<bar>)"

text \<open>Line 53, and lines 69 and 70. The buffers are never empty where the code divides.\<close>

definition average :: "real list \<Rightarrow> real" where
  "average xs = sum_list xs / real (length xs)"

definition avg_lat :: "(real \<times> real) list \<Rightarrow> real" where
  "avg_lat fs = sum_list (map fst fs) / real (length fs)"

definition avg_lon :: "(real \<times> real) list \<Rightarrow> real" where
  "avg_lon fs = sum_list (map snd fs) / real (length fs)"

text \<open>
  Lines 62 to 74, with a previous position \<open>(pl, po)\<close>: the first heading from the raw
  positions, later ones from the average of the window when the gate opens; the last
  branch only prints.
\<close>

definition update_heading :: "state \<Rightarrow> real \<Rightarrow> real \<Rightarrow> real \<Rightarrow> real \<Rightarrow> rmc_fix \<Rightarrow> state" where
  "update_heading s pl po sd avg_speed f =
     (if \<not> first_heading_calculated s then
        s\<lparr>last_valid_heading := Some (haversine_heading pl po (lat f) (lon f)),
          first_heading_calculated := True\<rparr>
      else if sd > 0.2 \<or> avg_speed > 0.2 then
        s\<lparr>last_valid_heading :=
            Some (haversine_heading (avg_lat (previous_fixes s)) (avg_lon (previous_fixes s))
                    (lat f) (lon f))\<rparr>
      else s)"

text \<open>Lines 77 to 80: the three result lists grow together, or not at all.\<close>

definition store :: "state \<Rightarrow> rmc_fix \<Rightarrow> state" where
  "store s f =
     (case (last_valid_heading s, reported_heading f) of
        (Some hv, Some rv) \<Rightarrow>
          s\<lparr>calculated_headings := calculated_headings s @ [radians hv],
            reported_headings := reported_headings s @ [radians rv],
            timestamps := timestamps s @ [timestamp f]\<rparr>
      | _ \<Rightarrow> s)"

text \<open>Lines 51 to 86: one valid fix.\<close>

definition fix_step :: "state \<Rightarrow> rmc_fix \<Rightarrow> state" where
  "fix_step s f =
     (let s1 = s\<lparr>speed_buffer := deque_append 5 (speed_buffer s) (speed_m_s f)\<rparr>;
          avg_speed = average (speed_buffer s1);
          sd = speed_diff (last_speed s1) (speed_m_s f);
          s2 = s1\<lparr>previous_fixes := deque_append 5 (previous_fixes s1) (lat f, lon f)\<rparr>;
          s3 = (case (prev_lat s2, prev_lon s2) of
                  (Some pl, Some po) \<Rightarrow> store (update_heading s2 pl po sd avg_speed f) f
                | _ \<Rightarrow> s2)
      in s3\<lparr>prev_lat := Some (lat f), prev_lon := Some (lon f),
             last_speed := Some (speed_m_s f)\<rparr>)"

text \<open>A session of valid fixes, from the initial state.\<close>

definition run :: "rmc_fix list \<Rightarrow> state" where
  "run fs = foldl fix_step init fs"

subsection \<open>The reading loop (lines 37 to 91)\<close>

text \<open>
  What \<open>pynmea2.parse\<close> hands back for a line is an input of the model: either it
  raises \<open>ParseError\<close>, or it yields a sentence. Of a sentence the code reads
  \<open>status\<close>, \<open>latitude\<close>, \<open>longitude\<close> and the two float-typed fields
  \<open>true_course\<close> and \<open>spd_over_grnd\<close>, each of which is \<open>None\<close> when the field of
  the sentence is empty and a float otherwise.
\<close>

record msg =
  status :: string
  latitude :: real
  longitude :: real
  true_course :: "real option"
  spd_over_grnd :: "real option"

datatype parsed = ParseError | Sentence msg

datatype error = TypeError

text \<open>
  One turn of the loop reads the clock for the loop test (\<open>now\<close>), a line, and, for a
  valid sentence, the clock again (\<open>stamp\<close>); both clock values are relative to
  \<open>start_time\<close>.
\<close>

record reading =
  now :: real
  line :: string
  parse :: parsed
  stamp :: real

text \<open>Truth value of a float-typed field (line 47): \<open>None\<close> and \<open>0.0\<close> are falsy.\<close>

definition truthy :: "real option \<Rightarrow> bool" where
  "truthy v = (case v of None \<Rightarrow> False | Some r \<Rightarrow> r \<noteq> 0)"

text \<open>Lines 45 to 49; \<open>None * 0.514444\<close> raises \<open>TypeError\<close>.\<close>

definition extract_fix :: "msg \<Rightarrow> real \<Rightarrow> error + rmc_fix" where
  "extract_fix m t =
     (let reported = (if truthy (true_course m) then true_course m else None)
      in case spd_over_grnd m of
           None \<Rightarrow> Inl TypeError
         | Some knots \<Rightarrow>
             Inr \<lparr>lat = latitude m, lon = longitude m, reported_heading = reported,
                  speed_m_s = knots * 0.514444, timestamp = t\<rparr>)"

text \<open>Lines 38 to 89: the body of the loop. Only \<open>ParseError\<close> is caught.\<close>

definition loop_body :: "state \<Rightarrow> reading \<Rightarrow> error + state" where
  "loop_body s r =
     (if prefix ''$GNRMC'' (line r) \<or> prefix ''$GPRMC'' (line r) then
        (case parse r of
           ParseError \<Rightarrow> Inr s
         | Sentence m \<Rightarrow>
             if status m \<noteq> ''A'' then Inr s
             else (case extract_fix m (stamp r) of
                     Inl e \<Rightarrow> Inl e
                   | Inr f \<Rightarrow> Inr (fix_step s f)))
      else Inr s)"

text \<open>
  Line 37: the loop runs while the clock is below \<open>test_duration\<close>; the list holds the
  readings the serial port delivers.
\<close>

fun read_loop :: "real \<Rightarrow> state \<Rightarrow> reading list \<Rightarrow> error + state" where
  "read_loop test_duration s [] = Inr s"
| "read_loop test_duration s (r # rs) =
     (if now r < test_duration then
        (case loop_body s r of
           Inl e \<Rightarrow> Inl e
         | Inr s' \<Rightarrow> read_loop test_duration s' rs)
      else Inr s)"

definition read_nmea_rmc :: "reading list \<Rightarrow> real \<Rightarrow> error + (real list \<times> real list \<times> real list)" where
  "read_nmea_rmc ser test_duration =
     (case read_loop test_duration init ser of
        Inl e \<Rightarrow> Inl e
      | Inr s \<Rightarrow> Inr (timestamps s, calculated_headings s, reported_headings s))"

subsection \<open>Lines 14 to 86 again, over any arithmetic\<close>

text \<open>
  Where a statement depends on which side of the literal \<open>0.2\<close> a computed float falls,
  the exact reals and the doubles can disagree (the mean of three times \<open>0.2\<close> is
  \<open>0.2\<close> in the reals and \<open>0.20000000000000004\<close> in doubles). The same lines
  are therefore given a second time with the arithmetic as a parameter.
\<close>

text \<open>
  The arithmetic of Python: its operations on floats, the conversion of the integers the
  code mixes in (\<open>0\<close>, \<open>360\<close>, \<open>len(...)\<close>), the comparison \<open>>\<close> and the float that
  the literal \<open>0.2\<close> denotes. Nothing is assumed about them, so whatever holds for every
  value of this record holds for the doubles of the interpreter, rounding included.
\<close>

record 'f float_ops =
  fl_of_nat :: "nat \<Rightarrow> 'f"
  fl_add :: "'f \<Rightarrow> 'f \<Rightarrow> 'f"
  fl_sub :: "'f \<Rightarrow> 'f \<Rightarrow> 'f"
  fl_mul :: "'f \<Rightarrow> 'f \<Rightarrow> 'f"
  fl_div :: "'f \<Rightarrow> 'f \<Rightarrow> 'f"
  fl_mod :: "'f \<Rightarrow> 'f \<Rightarrow> 'f"
  fl_abs :: "'f \<Rightarrow> 'f"
  fl_gt :: "'f \<Rightarrow> 'f \<Rightarrow> bool"
  fl_sin :: "'f \<Rightarrow> 'f"
  fl_cos :: "'f \<Rightarrow> 'f"
  fl_atan2 :: "'f \<Rightarrow> 'f \<Rightarrow> 'f"
  fl_radians :: "'f \<Rightarrow> 'f"
  fl_degrees :: "'f \<Rightarrow> 'f"
  fl_02 :: "'f"

text \<open>\<open>sum(xs)\<close> adds from the left, starting at the integer 0; \<open>sum(xs) / len(xs)\<close>.\<close>

definition fl_sum :: "'f float_ops \<Rightarrow> 'f list \<Rightarrow> 'f" where
  "fl_sum A xs = foldl (fl_add A) (fl_of_nat A 0) xs"

definition fl_mean :: "'f float_ops \<Rightarrow> 'f list \<Rightarrow> 'f" where
  "fl_mean A xs = fl_div A (fl_sum A xs) (fl_of_nat A (length xs))"

text \<open>Lines 14 to 23.\<close>

definition fl_haversine_heading :: "'f float_ops \<Rightarrow> 'f \<Rightarrow> 'f \<Rightarrow> 'f \<Rightarrow> 'f \<Rightarrow> 'f" where
  "fl_haversine_heading A lat1 lon1 lat2 lon2 =
     (let lat1r = fl_radians A lat1; lon1r = fl_radians A lon1;
          lat2r = fl_radians A lat2; lon2r = fl_radians A lon2;
          delta_lon = fl_sub A lon2r lon1r;
          x = fl_mul A (fl_sin A delta_lon) (fl_cos A lat2r);
          y = fl_sub A (fl_mul A (fl_cos A lat1r) (fl_sin A lat2r))
                (fl_mul A (fl_mul A (fl_sin A lat1r) (fl_cos A lat2r)) (fl_cos A delta_lon));
          heading = fl_degrees A (fl_atan2 A x y)
      in fl_mod A (fl_add A heading (fl_of_nat A 360)) (fl_of_nat A 360))"

text \<open>Lines 27 to 34.\<close>

record 'f fl_state =
  fl_prev_lat :: "'f option"
  fl_prev_lon :: "'f option"
  fl_last_valid_heading :: "'f option"
  fl_last_speed :: "'f option"
  fl_speed_buffer :: "'f list"
  fl_calculated_headings :: "'f list"
  fl_reported_headings :: "'f list"
  fl_timestamps :: "'f list"
  fl_previous_fixes :: "('f \<times> 'f) list"
  fl_first_heading_calculated :: bool

definition fl_init :: "'f fl_state" where
  "fl_init = \<lparr>fl_prev_lat = None, fl_prev_lon = None, fl_last_valid_heading = None,
           fl_last_speed = None, fl_speed_buffer = [], fl_calculated_headings = [],
           fl_reported_headings = [], fl_timestamps = [], fl_previous_fixes = [],
           fl_first_heading_calculated = False\<rparr>"

text \<open>The values of lines 45 to 49 for one valid message.\<close>

record 'f fl_fix =
  fl_lat :: 'f
  fl_lon :: 'f
  fl_reported_heading :: "'f option"
  fl_speed_m_s :: 'f
  fl_timestamp :: 'f

text \<open>Line 56.\<close>

definition fl_speed_diff :: "'f float_ops \<Rightarrow> 'f option \<Rightarrow> 'f \<Rightarrow> 'f" where
  "fl_speed_diff A prev current =
     (case prev of None \<Rightarrow> fl_of_nat A 0 | Some l \<Rightarrow> fl_abs A (fl_sub A current l))"

text \<open>Lines 62 to 74.\<close>

definition fl_update_heading ::
  "'f float_ops \<Rightarrow> 'f fl_state \<Rightarrow> 'f \<Rightarrow> 'f \<Rightarrow> 'f \<Rightarrow> 'f \<Rightarrow> 'f fl_fix \<Rightarrow> 'f fl_state" where
  "fl_update_heading A s pl po sd avg_speed f =
     (if \<not> fl_first_heading_calculated s then
        s\<lparr>fl_last_valid_heading := Some (fl_haversine_heading A pl po (fl_lat f) (fl_lon f)),
          fl_first_heading_calculated := True\<rparr>
      else if fl_gt A sd (fl_02 A) \<or> fl_gt A avg_speed (fl_02 A) then
        s\<lparr>fl_last_valid_heading :=
            Some (fl_haversine_heading A (fl_mean A (map fst (fl_previous_fixes s)))
                    (fl_mean A (map snd (fl_previous_fixes s))) (fl_lat f) (fl_lon f))\<rparr>
      else s)"

text \<open>Lines 77 to 80.\<close>

definition fl_store :: "'f float_ops \<Rightarrow> 'f fl_state \<Rightarrow> 'f fl_fix \<Rightarrow> 'f fl_state" where
  "fl_store A s f =
     (case (fl_last_valid_heading s, fl_reported_heading f) of
        (Some hv, Some rv) \<Rightarrow>
          s\<lparr>fl_calculated_headings := fl_calculated_headings s @ [fl_radians A hv],
            fl_reported_headings := fl_reported_headings s @ [fl_radians A rv],
            fl_timestamps := fl_timestamps s @ [fl_timestamp f]\<rparr>
      | _ \<Rightarrow> s)"

text \<open>Lines 51 to 86: one valid fix.\<close>

definition fl_fix_step :: "'f float_ops \<Rightarrow> 'f fl_state \<Rightarrow> 'f fl_fix \<Rightarrow> 'f fl_state" where
  "fl_fix_step A s f =
     (let s1 = s\<lparr>fl_speed_buffer := deque_append 5 (fl_speed_buffer s) (fl_speed_m_s f)\<rparr>;
          avg_speed = fl_mean A (fl_speed_buffer s1);
          sd = fl_speed_diff A (fl_last_speed s1) (fl_speed_m_s f);
          s2 = s1\<lparr>fl_previous_fixes :=
                    deque_append 5 (fl_previous_fixes s1) (fl_lat f, fl_lon f)\<rparr>;
          s3 = (case (fl_prev_lat s2, fl_prev_lon s2) of
                  (Some pl, Some po) \<Rightarrow>
                    fl_store A (fl_update_heading A s2 pl po sd avg_speed f) f
                | _ \<Rightarrow> s2)
      in s3\<lparr>fl_prev_lat := Some (fl_lat f), fl_prev_lon := Some (fl_lon f),
             fl_last_speed := Some (fl_speed_m_s f)\<rparr>)"

text \<open>A session of valid fixes, from the initial state.\<close>

definition fl_run :: "'f float_ops \<Rightarrow> 'f fl_fix list \<Rightarrow> 'f fl_state" where
  "fl_run A fs = foldl (fl_fix_step A) fl_init fs"

text \<open>
  Exact arithmetic on the reals is one such arithmetic; at it, the step above is the step
  \<open>fix_step\<close> of the first part (lemma \<open>exact_fix_step\<close> below).
\<close>

definition exact_ops :: "real float_ops" where
  "exact_ops = \<lparr>fl_of_nat = real, fl_add = (+), fl_sub = (-), fl_mul = (*), fl_div = (/),
                fl_mod = pymod, fl_abs = abs, fl_gt = (\<lambda>x y. x > y), fl_sin = sin,
                fl_cos = cos, fl_atan2 = atan2, fl_radians = radians, fl_degrees = degrees,
                fl_02 = 0.2\<rparr>"

definition to_fl_fix :: "rmc_fix \<Rightarrow> real fl_fix" where
  "to_fl_fix f = \<lparr>fl_lat = lat f, fl_lon = lon f, fl_reported_heading = reported_heading f,
                  fl_speed_m_s = speed_m_s f, fl_timestamp = timestamp f\<rparr>"

definition to_fl_state :: "state \<Rightarrow> real fl_state" where
  "to_fl_state s = \<lparr>fl_prev_lat = prev_lat s, fl_prev_lon = prev_lon s,
       fl_last_valid_heading = last_valid_heading s, fl_last_speed = last_speed s,
       fl_speed_buffer = speed_buffer s, fl_calculated_headings = calculated_headings s,
       fl_reported_headings = reported_headings s, fl_timestamps = timestamps s,
       fl_previous_fixes = previous_fixes s,
       fl_first_heading_calculated = first_heading_calculated s\<rparr>"

section \<open>Facts about the model\<close>

subsection \<open>The bearing calculator at points of the equator and of a meridian\<close>

lemma pymod_range:
  assumes "0 < y"
  shows "0 \<le> pymod x y" and "pymod x y < y"
proof -
  have "of_int \<lfloor>x / y\<rfloor> \<le> x / y" by (rule of_int_floor_le)
  with assms have "y * of_int \<lfloor>x / y\<rfloor> \<le> y * (x / y)"
    by (simp only: mult_le_cancel_left_pos)
  with assms show "0 \<le> pymod x y" by (simp add: pymod_def)
  have "x / y < of_int \<lfloor>x / y\<rfloor> + 1" by linarith
  with assms have "y * (x / y) < y * (of_int \<lfloor>x / y\<rfloor> + 1)"
    by (simp only: mult_less_cancel_left_pos)
  with assms show "pymod x y < y" by (simp add: pymod_def algebra_simps)
qed

lemma atan2_neg:
  assumes "a < 0"
  shows "- pi < atan2 a b \<and> atan2 a b < 0"
proof -
  consider "0 < b" | "b < 0" | "b = 0" by linarith
  then show ?thesis
  proof cases
    case 1
    with assms have "a / b < 0" by (simp add: divide_neg_pos)
    then have "arctan (a / b) < 0" by (simp add: arctan_less_zero_iff)
    moreover have "- (pi / 2) < arctan (a / b)" by (rule arctan_lbound)
    moreover have "atan2 a b = arctan (a / b)" using 1 by (simp add: atan2_def)
    ultimately show ?thesis using pi_gt_zero by linarith
  next
    case 2
    with assms have "0 < a / b" by (simp add: divide_neg_neg)
    then have "0 < arctan (a / b)" by (simp add: zero_less_arctan_iff)
    moreover have "arctan (a / b) < pi / 2" by (rule arctan_ubound)
    moreover have "atan2 a b = arctan (a / b) - pi" using 2 assms by (simp add: atan2_def)
    ultimately show ?thesis using pi_gt_zero by linarith
  next
    case 3
    with assms have "atan2 a b = - (pi / 2)" by (simp add: atan2_def)
    then show ?thesis using pi_gt_zero by linarith
  qed
qed

lemma atan2_range: "- pi < atan2 a b \<and> atan2 a b \<le> pi"
proof (cases "a < 0")
  case True
  then show ?thesis using atan2_neg[of a b] by simp
next
  case False
  have l: "- (pi / 2) < arctan (a / b)" and u: "arctan (a / b) < pi / 2"
    by (rule arctan_lbound, rule arctan_ubound)
  consider "0 < b" | "b < 0" | "b = 0" by linarith
  then show ?thesis
  proof cases
    case 1
    then have "atan2 a b = arctan (a / b)" by (simp add: atan2_def)
    with l u show ?thesis using pi_gt_zero by linarith
  next
    case 2
    with False have "atan2 a b = arctan (a / b) + pi" by (simp add: atan2_def)
    moreover from 2 False have "a / b \<le> 0" by (simp add: divide_nonneg_neg)
    then have "arctan (a / b) \<le> 0" by (simp add: arctan_le_zero_iff)
    ultimately show ?thesis using l pi_gt_zero by linarith
  next
    case 3
    with False have "atan2 a b = pi / 2 \<or> atan2 a b = 0" by (auto simp add: atan2_def)
    then show ?thesis
    proof
      assume "atan2 a b = pi / 2"
      then show ?thesis using pi_gt_zero by linarith
    next
      assume "atan2 a b = 0"
      then show ?thesis using pi_gt_zero by linarith
    qed
  qed
qed

lemma heading_due_east:
  assumes "0 < b - a" "b - a < 180"
  shows "haversine_heading 0 a 0 b = 90"
proof -
  have d: "radians b - radians a = (b - a) * pi / 180"
    by (simp add: radians_def field_simps)
  have "0 < (b - a) * pi / 180" using assms by simp
  moreover have "(b - a) * pi / 180 < pi" using assms by simp
  ultimately have "0 < sin (radians b - radians a)"
    unfolding d by (rule sin_gt_zero)
  then show ?thesis
    by (simp add: haversine_heading_def Let_def radians_def[of 0] atan2_def degrees_def pymod_def)
qed

lemma heading_due_west:
  assumes "b - a < 0" "-180 < b - a"
  shows "haversine_heading 0 a 0 b = 270"
proof -
  have d: "radians b - radians a = - ((a - b) * pi / 180)"
    by (simp add: radians_def field_simps)
  have "0 < (a - b) * pi / 180" using assms by simp
  moreover have "(a - b) * pi / 180 < pi" using assms by simp
  ultimately have "0 < sin ((a - b) * pi / 180)"
    by (rule sin_gt_zero)
  then have "sin (radians b - radians a) < 0"
    unfolding d by simp
  then show ?thesis
    by (simp add: haversine_heading_def Let_def radians_def[of 0] atan2_def degrees_def pymod_def)
qed

lemma heading_due_north:
  assumes "0 < b - a" "b - a < 180"
  shows "haversine_heading a l b l = 0"
proof -
  have d: "radians b - radians a = (b - a) * pi / 180"
    by (simp add: radians_def field_simps)
  have "0 < (b - a) * pi / 180" using assms by simp
  moreover have "(b - a) * pi / 180 < pi" using assms by simp
  ultimately have "0 < sin (radians b - radians a)"
    unfolding d by (rule sin_gt_zero)
  then have "0 < cos (radians a) * sin (radians b) - sin (radians a) * cos (radians b)"
    by (simp add: sin_diff mult.commute)
  then show ?thesis
    by (simp add: haversine_heading_def Let_def atan2_def degrees_def pymod_def)
qed

lemma heading_westward:
  assumes "sin (radians lon2 - radians lon1) * cos (radians lat2) < 0"
  shows "180 < haversine_heading lat1 lon1 lat2 lon2"
proof -
  define y where "y = cos (radians lat1) * sin (radians lat2)
     - sin (radians lat1) * cos (radians lat2) * cos (radians lon2 - radians lon1)"
  define t where "t = atan2 (sin (radians lon2 - radians lon1) * cos (radians lat2)) y"
  have t: "- pi < t" "t < 0" using atan2_neg[OF assms, of y] by (simp_all add: t_def)
  have d: "- 180 < degrees t" "degrees t < 0"
    using t pi_gt_zero by (simp_all add: degrees_def field_simps)
  then have "\<lfloor>(degrees t + 360) / 360\<rfloor> = 0" by (simp add: floor_eq_iff)
  then have "pymod (degrees t + 360) 360 = degrees t + 360" by (simp add: pymod_def)
  moreover have "haversine_heading lat1 lon1 lat2 lon2 = pymod (degrees t + 360) 360"
    by (simp add: haversine_heading_def Let_def t_def y_def)
  ultimately show ?thesis using d by simp
qed

lemma heading_to_north_west: "180 < haversine_heading 0 2 1 1"
proof (rule heading_westward)
  have "0 < sin (pi / 180)" by (rule sin_gt_zero) (use pi_gt_zero in simp_all)
  moreover have "radians 1 - radians 2 = - (pi / 180)" by (simp add: radians_def)
  ultimately have "sin (radians 1 - radians 2) < 0" by simp
  moreover have "0 < cos (radians 1)"
    by (rule cos_gt_zero) (use pi_gt_zero in \<open>simp_all add: radians_def\<close>)
  ultimately show "sin (radians 1 - radians 2) * cos (radians 1) < 0"
    by (rule mult_neg_pos)
qed








subsection \<open>One fix\<close>

lemmas step_defs = run_def fix_step_def Let_def init_def deque_append_def update_heading_def
  store_def speed_diff_def average_def avg_lat_def avg_lon_def

lemma fix_step_prev [simp]:
  "prev_lat (fix_step s f) = Some (lat f)"
  "prev_lon (fix_step s f) = Some (lon f)"
  "last_speed (fix_step s f) = Some (speed_m_s f)"
  by (simp_all add: fix_step_def Let_def store_def update_heading_def split: option.splits)

lemma fix_step_buffers [simp]:
  "speed_buffer (fix_step s f) = deque_append 5 (speed_buffer s) (speed_m_s f)"
  "previous_fixes (fix_step s f) = deque_append 5 (previous_fixes s) (lat f, lon f)"
  by (simp_all add: fix_step_def Let_def store_def update_heading_def split: option.splits)

lemma fix_step_first:
  "first_heading_calculated (fix_step s f) =
     (first_heading_calculated s \<or> (prev_lat s \<noteq> None \<and> prev_lon s \<noteq> None))"
  by (auto simp add: fix_step_def Let_def store_def update_heading_def split: option.splits)

lemma fix_step_heading_some:
  "prev_lat s = Some pl \<Longrightarrow> prev_lon s = Some po \<Longrightarrow>
   last_valid_heading (fix_step s f) =
     (if \<not> first_heading_calculated s then
        Some (haversine_heading pl po (lat f) (lon f))
      else if speed_diff (last_speed s) (speed_m_s f) > 0.2
              \<or> average (deque_append 5 (speed_buffer s) (speed_m_s f)) > 0.2 then
        Some (haversine_heading (avg_lat (deque_append 5 (previous_fixes s) (lat f, lon f)))
                (avg_lon (deque_append 5 (previous_fixes s) (lat f, lon f))) (lat f) (lon f))
      else last_valid_heading s)"
  by (simp add: fix_step_def Let_def store_def update_heading_def split: option.splits)

lemma fix_step_calc_grows:
  "\<exists>ys. calculated_headings (fix_step s f) = calculated_headings s @ ys"
  by (auto simp add: fix_step_def Let_def store_def update_heading_def split: option.splits)

lemma foldl_calc_grows:
  "\<exists>ys. calculated_headings (foldl fix_step s fs) = calculated_headings s @ ys"
proof (induction fs arbitrary: s)
  case Nil
  show ?case by simp
next
  case (Cons f fs)
  obtain ys where a: "calculated_headings (fix_step s f) = calculated_headings s @ ys"
    using fix_step_calc_grows by blast
  obtain zs where "calculated_headings (foldl fix_step (fix_step s f) fs)
      = calculated_headings (fix_step s f) @ zs"
    using Cons.IH by blast
  with a show ?case by simp
qed

subsection \<open>A session of fixes\<close>

lemma run_snoc: "run (fs @ [f]) = fix_step (run fs) f"
  by (simp add: run_def)

lemma run_Nil: "run [] = init"
  by (simp add: run_def)

lemma run_prev:
  "fs \<noteq> [] \<Longrightarrow>
   prev_lat (run fs) = Some (lat (last fs)) \<and> prev_lon (run fs) = Some (lon (last fs)) \<and>
   last_speed (run fs) = Some (speed_m_s (last fs))"
  by (cases fs rule: rev_cases) (simp_all add: run_snoc)

lemma deque_append_drop:
  "deque_append 5 (map g (drop (length fs - 5) fs)) (g f) =
   map g (drop (length (fs @ [f]) - 5) (fs @ [f]))"
proof (cases "length fs < 5")
  case True
  then show ?thesis by (simp add: deque_append_def Let_def)
next
  case False
  then have i: "Suc (length fs - 5) = length fs - 4" and j: "length fs - (length fs - 5) = 5"
    by arith+
  from False show ?thesis
    by (simp add: deque_append_def Let_def j drop_map i)
qed

text \<open>The two deques hold the speeds and the positions of the last five fixes.\<close>

lemma run_buffers:
  "speed_buffer (run fs) = map speed_m_s (drop (length fs - 5) fs) \<and>
   previous_fixes (run fs) = map (\<lambda>f. (lat f, lon f)) (drop (length fs - 5) fs)"
proof (induction fs rule: rev_induct)
  case Nil
  show ?case by (simp add: run_def init_def)
next
  case (snoc f fs)
  show ?case
    unfolding run_snoc fix_step_buffers
    using deque_append_drop[of speed_m_s fs f] deque_append_drop[of "\<lambda>f. (lat f, lon f)" fs f] snoc
    by simp
qed

text \<open>The flag \<open>first_heading_calculated\<close> is set from the second fix on.\<close>

lemma run_first:
  "first_heading_calculated (run fs) = (2 \<le> length fs)"
proof (induction fs rule: rev_induct)
  case Nil
  show ?case by (simp add: run_def init_def)
next
  case (snoc f fs)
  show ?case
  proof (cases "fs = []")
    case True
    then show ?thesis by (simp add: run_def fix_step_first init_def)
  next
    case False
    then have "1 \<le> length fs" by (cases fs) simp_all
    with False snoc show ?thesis
      using run_prev[of fs] by (auto simp add: run_snoc fix_step_first)
  qed
qed

lemma sum_list_bound:
  "(\<And>v. v \<in> set xs \<Longrightarrow> v \<le> (c::real)) \<Longrightarrow> sum_list xs \<le> c * real (length xs)"
  by (induction xs) (auto simp add: algebra_simps add_mono)

lemma average_bound:
  assumes "\<And>v. v \<in> set xs \<Longrightarrow> v \<le> (c::real)" "xs \<noteq> []"
  shows "average xs \<le> c"
proof -
  have "0 < real (length xs)" using assms(2) by simp
  moreover have "sum_list xs \<le> c * real (length xs)" using assms(1) by (rule sum_list_bound)
  ultimately show ?thesis by (simp add: average_def pos_divide_le_eq)
qed

lemma hold_step:
  assumes "first_heading_calculated s" "prev_lat s \<noteq> None" "prev_lon s \<noteq> None"
    and "last_speed s = Some (speed_m_s f)"
    and "\<And>v. v \<in> set (deque_append 5 (speed_buffer s) (speed_m_s f)) \<Longrightarrow> v \<le> 0.2"
  shows "last_valid_heading (fix_step s f) = last_valid_heading s"
proof -
  have "deque_append 5 (speed_buffer s) (speed_m_s f) \<noteq> []"
    by (simp add: deque_append_def Let_def)
  with assms(5) have "average (deque_append 5 (speed_buffer s) (speed_m_s f)) \<le> 0.2"
    by (rule average_bound)
  with assms(1-4) show ?thesis
    by (auto simp add: fix_step_heading_some speed_diff_def)
qed

lemma last4_snoc:
  "drop (length (fs @ [f]) - 4) (fs @ [f]) = drop (length fs - 3) fs @ [f]"
  by (cases "length fs < 3") (simp_all add: Suc_diff_le)

lemma hold_run:
  assumes "first_heading_calculated (run pre)"
    and "speed_m_s (last pre) = 0.05"
    and "\<forall>g \<in> set (drop (length pre - 4) pre). speed_m_s g \<le> 0.2"
    and "\<forall>g \<in> set fs. speed_m_s g = 0.05"
  shows "last_valid_heading (run (pre @ fs)) = last_valid_heading (run pre)"
  using assms
proof (induction fs rule: rev_induct)
  case Nil
  show ?case by simp
next
  case (snoc f fs)
  let ?p = "pre @ fs"
  from snoc.prems(1) have len: "2 \<le> length pre" by (simp add: run_first)
  then have ne: "?p \<noteq> []" by auto
  have first: "first_heading_calculated (run ?p)" using len by (simp add: run_first)
  have f: "speed_m_s f = 0.05" using snoc.prems(4) by simp
  have lastp: "speed_m_s (last ?p) = 0.05"
    using snoc.prems(2,4) len by (cases fs rule: rev_cases) auto
  have tail: "\<forall>g \<in> set (drop (length ?p - 4) ?p). speed_m_s g \<le> 0.2"
    using snoc.prems(3,4)
  proof (induction fs rule: rev_induct)
    case Nil
    then show ?case by simp
  next
    case (snoc h hs)
    have "set (drop (length (pre @ hs) - 3) (pre @ hs))
        \<subseteq> set (drop (length (pre @ hs) - 4) (pre @ hs))"
      by (rule set_drop_subset_set_drop) simp
    with snoc show ?case
      using last4_snoc[of "pre @ hs" h] by auto
  qed
  have buf: "deque_append 5 (speed_buffer (run ?p)) (speed_m_s f)
      = map speed_m_s (drop (length ?p - 4) ?p) @ [speed_m_s f]"
    using deque_append_drop[of speed_m_s ?p f]
    by (cases "length ?p < 4") (simp_all add: run_buffers Suc_diff_le)
  have "last_valid_heading (fix_step (run ?p) f) = last_valid_heading (run ?p)"
  proof (rule hold_step)
    show "first_heading_calculated (run ?p)" by (rule first)
    show "prev_lat (run ?p) \<noteq> None" "prev_lon (run ?p) \<noteq> None"
      using run_prev[OF ne] by simp_all
    show "last_speed (run ?p) = Some (speed_m_s f)"
      using run_prev[OF ne] lastp f by simp
    show "v \<le> 0.2" if "v \<in> set (deque_append 5 (speed_buffer (run ?p)) (speed_m_s f))" for v
      using that tail f unfolding buf by auto
  qed
  moreover have "last_valid_heading (run ?p) = last_valid_heading (run pre)"
    using snoc by simp
  ultimately show ?case by (simp add: run_snoc[of ?p f, simplified])
qed

subsection \<open>The step over any arithmetic\<close>

lemma fl_fix_step_prev [simp]:
  "fl_prev_lat (fl_fix_step A s f) = Some (fl_lat f)"
  "fl_prev_lon (fl_fix_step A s f) = Some (fl_lon f)"
  "fl_last_speed (fl_fix_step A s f) = Some (fl_speed_m_s f)"
  by (simp_all add: fl_fix_step_def Let_def fl_store_def fl_update_heading_def split: option.splits)




lemma fl_run_snoc: "fl_run A (fs @ [f]) = fl_fix_step A (fl_run A fs) f"
  by (simp add: fl_run_def)




text \<open>At exact arithmetic the second model is the first.\<close>

lemma exact_heading [simp]: "fl_haversine_heading exact_ops = haversine_heading"
  by (intro ext) (simp add: fl_haversine_heading_def haversine_heading_def exact_ops_def Let_def)

lemma foldl_add_real: "foldl (+) a xs = a + sum_list (xs :: real list)"
  by (induction xs arbitrary: a) simp_all

lemma exact_mean: "fl_mean exact_ops xs = average xs"
  by (simp add: fl_mean_def fl_sum_def exact_ops_def average_def foldl_add_real)

lemma avg_as_average:
  "avg_lat ps = average (map fst ps)" "avg_lon ps = average (map snd ps)"
  by (simp_all add: avg_lat_def avg_lon_def average_def)

lemma exact_ops_simps:
  "fl_of_nat exact_ops = real" "fl_add exact_ops = (+)" "fl_sub exact_ops = (-)"
  "fl_div exact_ops = (/)" "fl_abs exact_ops = abs" "fl_gt exact_ops = (\<lambda>x y. x > y)"
  "fl_02 exact_ops = 0.2" "fl_radians exact_ops = radians"
  by (simp_all add: exact_ops_def)

lemma exact_fix_step:
  "fl_fix_step exact_ops (to_fl_state s) (to_fl_fix f) = to_fl_state (fix_step s f)"
  by (simp add: fl_fix_step_def fix_step_def Let_def to_fl_state_def to_fl_fix_def exact_mean
      fl_speed_diff_def speed_diff_def fl_update_heading_def update_heading_def
      fl_store_def store_def avg_as_average exact_ops_simps
      split: option.splits)

lemma exact_run: "fl_run exact_ops (map to_fl_fix fs) = to_fl_state (run fs)"
proof (induction fs rule: rev_induct)
  case Nil
  show ?case by (simp add: fl_run_def run_def fl_init_def init_def to_fl_state_def)
next
  case (snoc f fs)
  then show ?case by (simp add: fl_run_snoc run_snoc exact_fix_step)
qed

subsection \<open>The reading loop on a session\<close>

text \<open>A line whose parse raises \<open>ParseError\<close> leaves the state as it is.\<close>

lemma parse_error_skipped:
  "parse r = ParseError \<Longrightarrow> loop_body s r = Inr s"
  by (simp add: loop_body_def)

text \<open>
  On readings that are all within the time budget, all RMC lines and all valid sentences
  with a speed, the loop is the fold of \<open>fix_step\<close> over their fixes.
\<close>

lemma read_loop_valid:
  assumes "\<forall>r \<in> set rs. now r < d \<and> (prefix ''$GNRMC'' (line r) \<or> prefix ''$GPRMC'' (line r)) \<and>
             (\<exists>m. parse r = Sentence m \<and> status m = ''A'' \<and> extract_fix m (stamp r) = Inr (g r))"
  shows "read_loop d s rs = Inr (foldl fix_step s (map g rs))"
  using assms
proof (induction rs arbitrary: s)
  case Nil
  show ?case by simp
next
  case (Cons r rs)
  from Cons.prems have "loop_body s r = Inr (fix_step s (g r))"
    by (auto simp add: loop_body_def)
  moreover from Cons.prems have "now r < d" by simp
  moreover from Cons have "read_loop d (fix_step s (g r)) rs
      = Inr (foldl fix_step (fix_step s (g r)) (map g rs))"
    by simp
  ultimately show ?case by simp
qed

section \<open>The claims\<close>

subsection \<open>C1: the three-fix scenario\<close>

text \<open>
  C1, as stated, fails. For the fixes (0, 0, speed 0, no reported heading) at t=0,
  (0, 1, speed 0.05, heading 88) at t=1 and (0, 2, speed 0.05, heading 89) at t=2, the
  claim is that exactly one sample is stored, at t=2. The list of time stamps is not \<open>[2]\<close>:
  the second fix has a reported heading and the heading computed from the first two
  positions, so line 77 stores a sample at t=1 as well.
\<close>

theorem scenario_single_sample_counterexample:
  "timestamps (run
     [\<lparr>lat = 0, lon = 0, reported_heading = None, speed_m_s = 0, timestamp = 0\<rparr>,
      \<lparr>lat = 0, lon = 1, reported_heading = Some 88, speed_m_s = 0.05, timestamp = 1\<rparr>,
      \<lparr>lat = 0, lon = 2, reported_heading = Some 89, speed_m_s = 0.05, timestamp = 2\<rparr>])
   \<noteq> [2]"
  by (simp add: step_defs heading_due_east)

text \<open>
  C1, amended. For that input exactly two samples are stored, at t=1 and at t=2; both
  carry, in radians, the bearing from (0, 0) to (0, 1), which is 90 degrees, and the
  reported headings 88 and 89 in radians.
\<close>

theorem scenario_two_samples:
  "timestamps (run
     [\<lparr>lat = 0, lon = 0, reported_heading = None, speed_m_s = 0, timestamp = 0\<rparr>,
      \<lparr>lat = 0, lon = 1, reported_heading = Some 88, speed_m_s = 0.05, timestamp = 1\<rparr>,
      \<lparr>lat = 0, lon = 2, reported_heading = Some 89, speed_m_s = 0.05, timestamp = 2\<rparr>])
     = [1, 2] \<and>
   calculated_headings (run
     [\<lparr>lat = 0, lon = 0, reported_heading = None, speed_m_s = 0, timestamp = 0\<rparr>,
      \<lparr>lat = 0, lon = 1, reported_heading = Some 88, speed_m_s = 0.05, timestamp = 1\<rparr>,
      \<lparr>lat = 0, lon = 2, reported_heading = Some 89, speed_m_s = 0.05, timestamp = 2\<rparr>])
     = [radians (haversine_heading 0 0 0 1), radians (haversine_heading 0 0 0 1)] \<and>
   reported_headings (run
     [\<lparr>lat = 0, lon = 0, reported_heading = None, speed_m_s = 0, timestamp = 0\<rparr>,
      \<lparr>lat = 0, lon = 1, reported_heading = Some 88, speed_m_s = 0.05, timestamp = 1\<rparr>,
      \<lparr>lat = 0, lon = 2, reported_heading = Some 89, speed_m_s = 0.05, timestamp = 2\<rparr>])
     = [radians 88, radians 89] \<and>
   haversine_heading 0 0 0 1 = 90"
  by (simp add: step_defs heading_due_east)

subsection \<open>C2: the motion gate\<close>



subsection \<open>C3: the first heading\<close>

text \<open>
  C3, as stated, fails in its second half: the first stored sample need not carry a
  heading made from raw positions. Here the first two fixes have no reported heading, so
  the first sample is stored at the third fix, (1, 1), which moves at 10 m/s: its heading
  is the bearing from the average position (1/3, 1) of the window, due north, which is
  neither the bearing from (0, 0) to (0, 2) nor the bearing from (0, 2) to (1, 1).
\<close>

theorem first_sample_raw_counterexample:
  "hd (calculated_headings (run
     [\<lparr>lat = 0, lon = 0, reported_heading = None, speed_m_s = 10, timestamp = 0\<rparr>,
      \<lparr>lat = 0, lon = 2, reported_heading = None, speed_m_s = 10, timestamp = 1\<rparr>,
      \<lparr>lat = 1, lon = 1, reported_heading = Some 5, speed_m_s = 10, timestamp = 2\<rparr>]))
     \<noteq> radians (haversine_heading 0 0 0 2) \<and>
   hd (calculated_headings (run
     [\<lparr>lat = 0, lon = 0, reported_heading = None, speed_m_s = 10, timestamp = 0\<rparr>,
      \<lparr>lat = 0, lon = 2, reported_heading = None, speed_m_s = 10, timestamp = 1\<rparr>,
      \<lparr>lat = 1, lon = 1, reported_heading = Some 5, speed_m_s = 10, timestamp = 2\<rparr>]))
     \<noteq> radians (haversine_heading 0 2 1 1)"
  using heading_to_north_west
  by (simp add: step_defs heading_due_east heading_due_north radians_def)

text \<open>
  C3, amended. On the second valid fix of a session the heading is the bearing from the
  raw previous position to the current one, whatever the speeds; and when that second fix
  has a reported heading, the first stored sample of the session carries this raw bearing.
\<close>

theorem bootstrap_raw:
  "last_valid_heading (run [f1, f2])
     = Some (haversine_heading (lat f1) (lon f1) (lat f2) (lon f2)) \<and>
   (reported_heading f2 \<noteq> None \<longrightarrow>
      take 1 (calculated_headings (run (f1 # f2 # fs)))
        = [radians (haversine_heading (lat f1) (lon f1) (lat f2) (lon f2))])"
proof -
  have a: "last_valid_heading (run [f1, f2])
      = Some (haversine_heading (lat f1) (lon f1) (lat f2) (lon f2))"
    by (simp add: step_defs split: option.splits)
  have b: "take 1 (calculated_headings (run (f1 # f2 # fs)))
        = [radians (haversine_heading (lat f1) (lon f1) (lat f2) (lon f2))]"
    if "reported_heading f2 \<noteq> None"
  proof -
    have c: "calculated_headings (run [f1, f2])
        = [radians (haversine_heading (lat f1) (lon f1) (lat f2) (lon f2))]"
      using that by (auto simp add: step_defs split: option.splits)
    have "run (f1 # f2 # fs) = foldl fix_step (run [f1, f2]) fs"
      by (simp add: run_def)
    with foldl_calc_grows[of "run [f1, f2]" fs] c show ?thesis by auto
  qed
  from a b show ?thesis by blast
qed

theorem bootstrap_raw_witness:
  "last_valid_heading (run
     [\<lparr>lat = 0, lon = 0, reported_heading = None, speed_m_s = 10, timestamp = 0\<rparr>,
      \<lparr>lat = 0, lon = 1, reported_heading = Some 88, speed_m_s = 10, timestamp = 1\<rparr>])
     = Some 90 \<and>
   reported_heading
      \<lparr>lat = 0, lon = 1, reported_heading = Some 88, speed_m_s = 10, timestamp = 1\<rparr> \<noteq> None \<and>
   take 1 (calculated_headings (run
     [\<lparr>lat = 0, lon = 0, reported_heading = None, speed_m_s = 10, timestamp = 0\<rparr>,
      \<lparr>lat = 0, lon = 1, reported_heading = Some 88, speed_m_s = 10, timestamp = 1\<rparr>,
      \<lparr>lat = 0, lon = -2, reported_heading = Some 5, speed_m_s = 10, timestamp = 2\<rparr>]))
     = [radians 90]"
  using bootstrap_raw[
      of "\<lparr>lat = 0, lon = 0, reported_heading = None, speed_m_s = 10, timestamp = 0\<rparr>"
         "\<lparr>lat = 0, lon = 1, reported_heading = Some 88, speed_m_s = 10, timestamp = 1\<rparr>"
         "[\<lparr>lat = 0, lon = -2, reported_heading = Some 5, speed_m_s = 10, timestamp = 2\<rparr>]"]
  by (simp add: heading_due_east)

subsection \<open>C4: messages that abort the loop\<close>

text \<open>
  C4. The claim is that no single message aborts the reading loop. A sentence with
  status A whose speed field is empty does: \<open>spd_over_grnd\<close> is \<open>None\<close>, line 48
  raises \<open>TypeError\<close>, and the handler of line 88 catches \<open>ParseError\<close> only.
\<close>

theorem empty_speed_aborts:
  "read_nmea_rmc
     [\<lparr>now = 0, line = ''$GPRMC,120000,A,4807.038,N,01131.000,E,,084.4,230394,,*35'',
       parse = Sentence \<lparr>status = ''A'', latitude = 48.1173, longitude = 11.5166667,
                         true_course = Some 84.4, spd_over_grnd = None\<rparr>,
       stamp = 0\<rparr>] 60
   = Inl TypeError"
  by (simp add: read_nmea_rmc_def loop_body_def extract_fix_def)

subsection \<open>C5: no sample without a reported heading\<close>

text \<open>
  C5. A fix whose reported heading is \<open>None\<close> adds nothing to the three result lists,
  also when a heading was computed or held on that step; more generally the lists are
  left as they are unless both the calculated and the reported heading are known.
\<close>

theorem no_sample_without_both:
  assumes "reported_heading f = None \<or> last_valid_heading (fix_step s f) = None"
  shows "calculated_headings (fix_step s f) = calculated_headings s \<and>
         reported_headings (fix_step s f) = reported_headings s \<and>
         timestamps (fix_step s f) = timestamps s"
  using assms
  by (auto simp add: fix_step_def Let_def store_def update_heading_def
        split: option.splits if_splits)

theorem no_sample_without_both_witness:
  "reported_heading
     \<lparr>lat = 0, lon = 1, reported_heading = None, speed_m_s = 0.05, timestamp = 1\<rparr> = None \<and>
   last_valid_heading (fix_step
     (run [\<lparr>lat = 0, lon = 0, reported_heading = Some 7, speed_m_s = 0, timestamp = 0\<rparr>])
     \<lparr>lat = 0, lon = 1, reported_heading = None, speed_m_s = 0.05, timestamp = 1\<rparr>)
     = Some 90 \<and>
   calculated_headings (fix_step
     (run [\<lparr>lat = 0, lon = 0, reported_heading = Some 7, speed_m_s = 0, timestamp = 0\<rparr>])
     \<lparr>lat = 0, lon = 1, reported_heading = None, speed_m_s = 0.05, timestamp = 1\<rparr>) = [] \<and>
   reported_headings (fix_step
     (run [\<lparr>lat = 0, lon = 0, reported_heading = Some 7, speed_m_s = 0, timestamp = 0\<rparr>])
     \<lparr>lat = 0, lon = 1, reported_heading = None, speed_m_s = 0.05, timestamp = 1\<rparr>) = [] \<and>
   timestamps (fix_step
     (run [\<lparr>lat = 0, lon = 0, reported_heading = Some 7, speed_m_s = 0, timestamp = 0\<rparr>])
     \<lparr>lat = 0, lon = 1, reported_heading = None, speed_m_s = 0.05, timestamp = 1\<rparr>) = []"
proof -
  have s: "calculated_headings
      (run [\<lparr>lat = 0, lon = 0, reported_heading = Some 7, speed_m_s = 0, timestamp = 0\<rparr>]) = []"
    "reported_headings
      (run [\<lparr>lat = 0, lon = 0, reported_heading = Some 7, speed_m_s = 0, timestamp = 0\<rparr>]) = []"
    "timestamps
      (run [\<lparr>lat = 0, lon = 0, reported_heading = Some 7, speed_m_s = 0, timestamp = 0\<rparr>]) = []"
    by (simp_all add: step_defs)
  have h: "last_valid_heading (fix_step
     (run [\<lparr>lat = 0, lon = 0, reported_heading = Some 7, speed_m_s = 0, timestamp = 0\<rparr>])
     \<lparr>lat = 0, lon = 1, reported_heading = None, speed_m_s = 0.05, timestamp = 1\<rparr>)
     = Some 90"
    by (simp add: step_defs heading_due_east)
  show ?thesis
    using h s no_sample_without_both[
        of "\<lparr>lat = 0, lon = 1, reported_heading = None, speed_m_s = 0.05, timestamp = 1\<rparr>"
           "run [\<lparr>lat = 0, lon = 0, reported_heading = Some 7, speed_m_s = 0, timestamp = 0\<rparr>]"]
    by simp
qed

subsection \<open>C6: the smoothing window\<close>

text \<open>
  C6. After any session of fixes the window of positions and the buffer of speeds hold at
  most five entries; after seven fixes the window holds the positions of the third to the
  seventh, in that order, and the average position is the arithmetic mean of these five.
\<close>

theorem window_bounded:
  "length (previous_fixes (run fs)) \<le> 5 \<and> length (speed_buffer (run fs)) \<le> 5 \<and>
   previous_fixes (run [f1, f2, f3, f4, f5, f6, f7]) =
     [(lat f3, lon f3), (lat f4, lon f4), (lat f5, lon f5), (lat f6, lon f6), (lat f7, lon f7)] \<and>
   avg_lat (previous_fixes (run [f1, f2, f3, f4, f5, f6, f7])) =
     (lat f3 + lat f4 + lat f5 + lat f6 + lat f7) / 5 \<and>
   avg_lon (previous_fixes (run [f1, f2, f3, f4, f5, f6, f7])) =
     (lon f3 + lon f4 + lon f5 + lon f6 + lon f7) / 5"
proof -
  have "length (previous_fixes (run fs)) \<le> 5" "length (speed_buffer (run fs)) \<le> 5"
    by (simp_all add: run_buffers)
  moreover have "previous_fixes (run [f1, f2, f3, f4, f5, f6, f7]) =
     [(lat f3, lon f3), (lat f4, lon f4), (lat f5, lon f5), (lat f6, lon f6), (lat f7, lon f7)]"
    by (simp add: run_buffers)
  ultimately show ?thesis by (simp add: avg_lat_def avg_lon_def)
qed

subsection \<open>C7: the speed difference\<close>

text \<open>
  C7. The speed difference of line 56 is 0 on the first fix of a session, where no
  earlier speed exists, and otherwise the absolute difference between the current speed
  and the speed of the fix just before.
\<close>

theorem speed_diff_previous:
  "speed_diff (last_speed (run [])) v = 0 \<and>
   speed_diff (last_speed (run (fs @ [f]))) v = \<bar>v - speed_m_s f\<bar>"
  by (simp add: run_snoc run_Nil init_def speed_diff_def)

subsection \<open>C8: holding the heading at constant low speed\<close>

text \<open>
  C8, as stated, fails. After the first heading has been computed (two fixes, the second
  at 0.05 m/s), a further fix at 0.05 m/s has speed difference 0, and yet the heading is
  recomputed and changes from 90 to 270 degrees: the buffer still holds the speed of the
  first fix, 10 m/s, so the average speed exceeds 0.2.
\<close>

theorem constant_speed_hold_counterexample:
  "first_heading_calculated (run
     [\<lparr>lat = 0, lon = 0, reported_heading = None, speed_m_s = 10, timestamp = 0\<rparr>,
      \<lparr>lat = 0, lon = 1, reported_heading = None, speed_m_s = 0.05, timestamp = 1\<rparr>]) \<and>
   last_valid_heading (run
     [\<lparr>lat = 0, lon = 0, reported_heading = None, speed_m_s = 10, timestamp = 0\<rparr>,
      \<lparr>lat = 0, lon = 1, reported_heading = None, speed_m_s = 0.05, timestamp = 1\<rparr>,
      \<lparr>lat = 0, lon = -2, reported_heading = None, speed_m_s = 0.05, timestamp = 2\<rparr>])
   \<noteq> last_valid_heading (run
     [\<lparr>lat = 0, lon = 0, reported_heading = None, speed_m_s = 10, timestamp = 0\<rparr>,
      \<lparr>lat = 0, lon = 1, reported_heading = None, speed_m_s = 0.05, timestamp = 1\<rparr>])"
  by (simp add: step_defs heading_due_east heading_due_west)

text \<open>
  C8, amended. After the first heading has been computed, if the last fix before the
  sequence had speed 0.05 m/s (so that the speed difference is 0) and the last four fixes
  before the sequence all had speeds of at most 0.2 m/s, then over every sequence of
  further fixes at 0.05 m/s \<open>last_valid_heading\<close> is unchanged after each fix of the
  sequence.
\<close>

theorem constant_speed_hold:
  assumes "first_heading_calculated (run pre)"
    and "speed_m_s (last pre) = 0.05"
    and "\<forall>g \<in> set (drop (length pre - 4) pre). speed_m_s g \<le> 0.2"
    and "\<forall>g \<in> set fs. speed_m_s g = 0.05"
  shows "last_valid_heading (run (pre @ take k fs)) = last_valid_heading (run pre)"
proof (rule hold_run)
  show "first_heading_calculated (run pre)" by (rule assms(1))
  show "speed_m_s (last pre) = 0.05" by (rule assms(2))
  show "\<forall>g \<in> set (drop (length pre - 4) pre). speed_m_s g \<le> 0.2" by (rule assms(3))
  show "\<forall>g \<in> set (take k fs). speed_m_s g = 0.05"
    using assms(4) by (auto dest: in_set_takeD)
qed

theorem constant_speed_hold_witness:
  "first_heading_calculated (run
     [\<lparr>lat = 0, lon = 0, reported_heading = None, speed_m_s = 0.05, timestamp = 0\<rparr>,
      \<lparr>lat = 0, lon = 1, reported_heading = None, speed_m_s = 0.05, timestamp = 1\<rparr>]) \<and>
   last_valid_heading (run
     ([\<lparr>lat = 0, lon = 0, reported_heading = None, speed_m_s = 0.05, timestamp = 0\<rparr>,
       \<lparr>lat = 0, lon = 1, reported_heading = None, speed_m_s = 0.05, timestamp = 1\<rparr>] @
      take 2
        [\<lparr>lat = 0, lon = -2, reported_heading = None, speed_m_s = 0.05, timestamp = 2\<rparr>,
         \<lparr>lat = 5, lon = 5, reported_heading = None, speed_m_s = 0.05, timestamp = 3\<rparr>]))
     = Some 90"
proof -
  have h: "first_heading_calculated (run
     [\<lparr>lat = 0, lon = 0, reported_heading = None, speed_m_s = 0.05, timestamp = 0\<rparr>,
      \<lparr>lat = 0, lon = 1, reported_heading = None, speed_m_s = 0.05, timestamp = 1\<rparr>])"
    by (simp add: step_defs)
  have b: "last_valid_heading (run
     [\<lparr>lat = 0, lon = 0, reported_heading = None, speed_m_s = 0.05, timestamp = 0\<rparr>,
      \<lparr>lat = 0, lon = 1, reported_heading = None, speed_m_s = 0.05, timestamp = 1\<rparr>])
     = Some 90"
    by (simp add: step_defs heading_due_east)
  show ?thesis
    using h b constant_speed_hold[OF h,
        of "[\<lparr>lat = 0, lon = -2, reported_heading = None, speed_m_s = 0.05, timestamp = 2\<rparr>,
             \<lparr>lat = 5, lon = 5, reported_heading = None, speed_m_s = 0.05, timestamp = 3\<rparr>]" 2]
    by simp
qed

subsection \<open>C9: the range of the bearing\<close>

text \<open>
  C9. For all inputs, \<open>haversine_heading\<close> returns a value in \<open>[0, 360)\<close>, and the
  value is the forward azimuth \<open>atan2(sin dlon * cos lat2, cos lat1 * sin lat2 -
  sin lat1 * cos lat2 * cos dlon)\<close> of the inputs in radians, converted to degrees and
  normalised by adding 360 and taking the remainder modulo 360.
\<close>

theorem haversine_heading_range:
  "0 \<le> haversine_heading lat1 lon1 lat2 lon2 \<and>
   haversine_heading lat1 lon1 lat2 lon2 < 360 \<and>
   haversine_heading lat1 lon1 lat2 lon2 =
     pymod (degrees (atan2
        (sin (radians lon2 - radians lon1) * cos (radians lat2))
        (cos (radians lat1) * sin (radians lat2)
           - sin (radians lat1) * cos (radians lat2) * cos (radians lon2 - radians lon1)))
       + 360) 360"
proof -
  have eq: "haversine_heading lat1 lon1 lat2 lon2 =
     pymod (degrees (atan2
        (sin (radians lon2 - radians lon1) * cos (radians lat2))
        (cos (radians lat1) * sin (radians lat2)
           - sin (radians lat1) * cos (radians lat2) * cos (radians lon2 - radians lon1)))
       + 360) 360"
    by (simp add: haversine_heading_def Let_def)
  have "0 \<le> pymod h 360" and "pymod h 360 < 360" for h
    by (rule pymod_range, simp)+
  with eq show ?thesis by simp
qed

subsection \<open>C10: a reported heading of 0\<close>

text \<open>
  C10. For an RMC line whose sentence has status A and a speed, and whose true course is
  falsy, that is absent or exactly 0 (due north), the fix is processed with the reported
  heading \<open>None\<close> and no sample is stored for it.
\<close>

theorem falsy_course_no_sample:
  assumes "prefix ''$GNRMC'' (line r) \<or> prefix ''$GPRMC'' (line r)"
    and "parse r = Sentence m" and "status m = ''A''"
    and "spd_over_grnd m = Some knots"
    and "true_course m = None \<or> true_course m = Some 0"
  shows "\<exists>f. extract_fix m (stamp r) = Inr f \<and> reported_heading f = None \<and>
           loop_body s r = Inr (fix_step s f) \<and>
           calculated_headings (fix_step s f) = calculated_headings s \<and>
           reported_headings (fix_step s f) = reported_headings s \<and>
           timestamps (fix_step s f) = timestamps s"
proof -
  define f where "f = \<lparr>lat = latitude m, lon = longitude m, reported_heading = None,
                  speed_m_s = knots * 0.514444, timestamp = stamp r\<rparr>"
  from assms(5) have "\<not> truthy (true_course m)" by (auto simp add: truthy_def)
  with assms(4) have e: "extract_fix m (stamp r) = Inr f"
    by (simp add: extract_fix_def f_def)
  have n: "reported_heading f = None" by (simp add: f_def)
  from assms(1-3) e have l: "loop_body s r = Inr (fix_step s f)"
    by (simp add: loop_body_def)
  have "calculated_headings (fix_step s f) = calculated_headings s \<and>
        reported_headings (fix_step s f) = reported_headings s \<and>
        timestamps (fix_step s f) = timestamps s"
    using n by (auto simp add: fix_step_def Let_def store_def update_heading_def split: option.splits)
  with e n l show ?thesis by blast
qed

theorem falsy_course_no_sample_witness:
  "loop_body
     (run [\<lparr>lat = 0, lon = 0, reported_heading = Some 7, speed_m_s = 0, timestamp = 0\<rparr>])
     \<lparr>now = 1, line = ''$GPRMC,120001,A,0000.000,N,00100.000,E,1.0,0.0,230394,,*10'',
       parse = Sentence \<lparr>status = ''A'', latitude = 0, longitude = 1,
                         true_course = Some 0, spd_over_grnd = Some 1\<rparr>,
       stamp = 1\<rparr>
   = Inr (fix_step
       (run [\<lparr>lat = 0, lon = 0, reported_heading = Some 7, speed_m_s = 0, timestamp = 0\<rparr>])
       \<lparr>lat = 0, lon = 1, reported_heading = None, speed_m_s = 0.514444, timestamp = 1\<rparr>) \<and>
   last_valid_heading (fix_step
       (run [\<lparr>lat = 0, lon = 0, reported_heading = Some 7, speed_m_s = 0, timestamp = 0\<rparr>])
       \<lparr>lat = 0, lon = 1, reported_heading = None, speed_m_s = 0.514444, timestamp = 1\<rparr>)
     = Some 90 \<and>
   timestamps (fix_step
       (run [\<lparr>lat = 0, lon = 0, reported_heading = Some 7, speed_m_s = 0, timestamp = 0\<rparr>])
       \<lparr>lat = 0, lon = 1, reported_heading = None, speed_m_s = 0.514444, timestamp = 1\<rparr>)
     = []"
proof -
  have t: "timestamps
      (run [\<lparr>lat = 0, lon = 0, reported_heading = Some 7, speed_m_s = 0, timestamp = 0\<rparr>]) = []"
    by (simp add: step_defs)
  have h: "last_valid_heading (fix_step
       (run [\<lparr>lat = 0, lon = 0, reported_heading = Some 7, speed_m_s = 0, timestamp = 0\<rparr>])
       \<lparr>lat = 0, lon = 1, reported_heading = None, speed_m_s = 0.514444, timestamp = 1\<rparr>)
     = Some 90"
    by (simp add: step_defs heading_due_east)
  have e: "extract_fix \<lparr>status = ''A'', latitude = 0, longitude = 1,
                         true_course = Some 0, spd_over_grnd = Some 1\<rparr> 1
     = Inr \<lparr>lat = 0, lon = 1, reported_heading = None, speed_m_s = 0.514444, timestamp = 1\<rparr>"
    by (simp add: extract_fix_def truthy_def)
  show ?thesis
    using t h e falsy_course_no_sample[
        of "\<lparr>now = 1, line = ''$GPRMC,120001,A,0000.000,N,00100.000,E,1.0,0.0,230394,,*10'',
             parse = Sentence \<lparr>status = ''A'', latitude = 0, longitude = 1,
                               true_course = Some 0, spd_over_grnd = Some 1\<rparr>,
             stamp = 1\<rparr>"
           "\<lparr>status = ''A'', latitude = 0, longitude = 1,
             true_course = Some 0, spd_over_grnd = Some 1\<rparr>"
           1
           "run [\<lparr>lat = 0, lon = 0, reported_heading = Some 7, speed_m_s = 0, timestamp = 0\<rparr>]"]
    by simp
qed

end
